theory Spec2Isabelle
  imports Main "HOL-Library.Sublist"
begin

section \<open>Data model of the simulate namespace\<close>

text \<open>
  The embedding follows \<^verbatim>\<open>ts/packages/anchor/src/program/namespace/simulate.ts\<close>.
  A JavaScript value that may be \<^verbatim>\<open>undefined\<close> or \<^verbatim>\<open>null\<close> is an \<open>option\<close>;
  a thrown exception or a rejected promise is the \<open>Inl\<close> branch of a sum.
  The types below are imported by the source from modules that are not part of the
  sources at hand (\<^verbatim>\<open>provider.js\<close>, \<^verbatim>\<open>utils/rpc.js\<close>, \<^verbatim>\<open>context.js\<close>,
  \<^verbatim>\<open>idl.js\<close>, \<^verbatim>\<open>event.js\<close>); each record keeps the fields the source reads.
\<close>

type_synonym PublicKey = string
type_synonym Signer = string
type_synonym Commitment = string

text \<open>\<^verbatim>\<open>ctx.options?.commitment\<close> and \<^verbatim>\<open>ctx.signers\<close> are the two reads of the context.\<close>

record ConfirmOptions =
  commitment :: "Commitment option"

record Context =
  signers :: "Signer list option"
  options :: "ConfirmOptions option"

text \<open>\<^verbatim>\<open>resp.logs\<close> is the only field read from the provider's answer.\<close>

record SuccessfulTxSimulationResponse =
  logs :: "string list option"

text \<open>\<^verbatim>\<open>idl.events\<close> is an optional array of event declarations.\<close>

record IdlEvent =
  event_name :: string

record Idl =
  idl_events :: "IdlEvent list option"

record IdlInstruction =
  ix_name :: string
  ix_args :: "string list"

text \<open>A decoded event: a name and the decoded fields, in a type \<open>'v\<close> of decoded values.\<close>

record 'v Event =
  name :: string
  data :: "(string \<times> 'v) list"

text \<open>The coder is only handed on to the event parser, which decodes payloads with it.\<close>

record 'v Coder =
  events_decode :: "string \<Rightarrow> 'v Event option"

record 'v SimulateResponse =
  events :: "'v Event list"
  raw :: "string list"

text \<open>
  What the provider's promise rejects with: an error that may carry a numeric program
  error code.
\<close>

record RawError =
  err_code :: "int option"
  err_message :: string

text \<open>
  The exceptions that leave \<^verbatim>\<open>simulate\<close>: a plain \<^verbatim>\<open>Error\<close> with its message, thrown by
  the function itself, whatever the error translator returns, or the error of the
  argument resolver, which the spec names \<open>MalformedArguments\<close>.
\<close>

datatype error =
    Error string
  | ProgramError int string RawError
  | UnknownError RawError
  | MalformedArguments

text \<open>
  \<^verbatim>\<open>provider.simulate\<close> is an optional method. Awaiting it either rejects (\<open>Inl\<close>) or
  resolves to a response, which the source also checks against \<^verbatim>\<open>undefined\<close>.
\<close>

record 'tx Provider =
  simulate :: "('tx \<Rightarrow> Signer list option \<Rightarrow> Commitment option
                  \<Rightarrow> RawError + SuccessfulTxSimulationResponse option) option"

text \<open>
  The calls the function makes to the network provider and to the event parser, in the
  order in which it makes them.
\<close>

datatype 'tx effect =
    ProviderSimulate 'tx "Signer list option" "Commitment option"
  | ParseLogs PublicKey "string list"

section \<open>The simulate function\<close>

text \<open>\<^verbatim>\<open>ctx.options?.commitment\<close>: undefined when \<^verbatim>\<open>ctx.options\<close> is.\<close>

definition commitment_of :: "Context \<Rightarrow> Commitment option" where
  "commitment_of ctx = (case options ctx of None \<Rightarrow> None | Some opts \<Rightarrow> commitment opts)"

text \<open>
  The loop \<^verbatim>\<open>for (const event of parser.parseLogs(logs)) { events.push(event); }\<close>:
  each event the parser yields is appended to the array.
\<close>

fun push_all :: "'e list \<Rightarrow> 'e list \<Rightarrow> 'e list" where
  "push_all acc [] = acc"
| "push_all acc (e # es) = push_all (acc @ [e]) es"

text \<open>
  \<^verbatim>\<open>SimulateFactory.build\<close>, applied to the arguments of one invocation. The three
  functions the source imports from modules outside the sources at hand come first:
  \<open>split\<close> is \<^verbatim>\<open>splitArgsAndCtx\<close>, \<open>translate\<close> is \<^verbatim>\<open>translateError\<close> and \<open>parse\<close> is
  \<^verbatim>\<open>new EventParser(programId, coder).parseLogs\<close>.

  The transaction builder \<^verbatim>\<open>txFn(...args)\<close> and then the argument resolver
  \<^verbatim>\<open>splitArgsAndCtx(idlIx, [...args])\<close> run first, before the capability check: an
  exception of either leaves the function at once, so both return a sum. The provider's
  promise is taken as settled: it has rejected or it has resolved. The result pairs the
  outcome of the invocation with the calls made to the provider and to the parser.

  The tests \<^verbatim>\<open>if (!logs)\<close> and \<^verbatim>\<open>if (idl.events)\<close> are JavaScript truthiness tests on an
  array that may be absent: an array, also an empty one, is truthy.
\<close>

definition build ::
  "(IdlInstruction \<Rightarrow> 'a list \<Rightarrow> error + ('a list \<times> Context))
   \<Rightarrow> (RawError \<Rightarrow> (int \<rightharpoonup> string) \<Rightarrow> error)
   \<Rightarrow> (PublicKey \<Rightarrow> 'v Coder \<Rightarrow> string list \<Rightarrow> 'v Event list)
   \<Rightarrow> IdlInstruction \<Rightarrow> ('a list \<Rightarrow> error + 'tx) \<Rightarrow> (int \<rightharpoonup> string) \<Rightarrow> 'tx Provider
   \<Rightarrow> 'v Coder \<Rightarrow> PublicKey \<Rightarrow> Idl \<Rightarrow> 'a list
   \<Rightarrow> (error + 'v SimulateResponse) \<times> 'tx effect list" where
  "build split translate parse idlIx txFn idlErrors provider coder programId idl args =
    (case txFn args of
       Inl thrown \<Rightarrow> (Inl thrown, [])
     | Inr tx \<Rightarrow>
         (case split idlIx args of
            Inl thrown \<Rightarrow> (Inl thrown, [])
          | Inr (positional, ctx) \<Rightarrow>
              (case simulate provider of
                 None \<Rightarrow>
                   (Inl (Error
                      ''This function requires 'Provider.simulate' to be implemented.''), [])
               | Some sim \<Rightarrow>
                   (let call = ProviderSimulate tx (signers ctx) (commitment_of ctx)
                    in case sim tx (signers ctx) (commitment_of ctx) of
                         Inl err \<Rightarrow> (Inl (translate err idlErrors), [call])
                       | Inr None \<Rightarrow> (Inl (Error ''Unable to simulate transaction''), [call])
                       | Inr (Some resp) \<Rightarrow>
                           (case logs resp of
                              None \<Rightarrow> (Inl (Error ''Simulated logs not found''), [call])
                            | Some ls \<Rightarrow>
                                (case idl_events idl of
                                   None \<Rightarrow> (Inr \<lparr>events = [], raw = ls\<rparr>, [call])
                                 | Some declared \<Rightarrow>
                                     (Inr \<lparr>events = push_all [] (parse programId coder ls),
                                           raw = ls\<rparr>,
                                      [call, ParseLogs programId ls])))))))"

section \<open>Collaborators that are not among the sources\<close>

text \<open>
  Modelled from the spec: the error translator \<^verbatim>\<open>translateError\<close> of \<^verbatim>\<open>error.js\<close>, which
  is not among the sources. The spec has it map a raw error and the table from numeric
  program error codes to messages to a classified error: a \<open>ProgramError\<close> carrying the
  table's message when the error's code is in the table, an \<open>UnknownError\<close> otherwise;
  the translation must not swallow the original cause, so both keep it.
\<close>

definition translateError :: "RawError \<Rightarrow> (int \<rightharpoonup> string) \<Rightarrow> error" where
  "translateError err idlErrors =
    (case err_code err of
       None \<Rightarrow> UnknownError err
     | Some c \<Rightarrow>
         (case idlErrors c of
            None \<Rightarrow> UnknownError err
          | Some msg \<Rightarrow> ProgramError c msg err))"

text \<open>The original cause an error carries, if it carries one.\<close>

fun cause :: "error \<Rightarrow> RawError option" where
  "cause (Error msg) = None"
| "cause (ProgramError c msg err) = Some err"
| "cause (UnknownError err) = Some err"
| "cause MalformedArguments = None"

text \<open>
  Modelled from the spec: the event parser \<^verbatim>\<open>EventParser.parseLogs\<close> of \<^verbatim>\<open>event.js\<close>,
  which is not among the sources. The spec has it scan the log lines in order. A line
  is a recognized emission when it starts with the program-specific emission marker;
  its payload, the rest of the line, is decoded with the coder. A line without the
  marker and a payload that does not decode are skipped.
\<close>

definition decodeLine :: "string \<Rightarrow> 'v Coder \<Rightarrow> string \<Rightarrow> 'v Event option" where
  "decodeLine marker coder line =
    (if prefix marker line then events_decode coder (drop (length marker) line) else None)"

fun parseLogs ::
  "(PublicKey \<Rightarrow> string) \<Rightarrow> PublicKey \<Rightarrow> 'v Coder \<Rightarrow> string list \<Rightarrow> 'v Event list" where
  "parseLogs marker programId coder [] = []"
| "parseLogs marker programId coder (line # rest) =
    (case decodeLine (marker programId) coder line of
       None \<Rightarrow> parseLogs marker programId coder rest
     | Some event \<Rightarrow> event # parseLogs marker programId coder rest)"

section \<open>Observations on an invocation\<close>

text \<open>Whether the event parser was handed the logs.\<close>

fun is_ParseLogs :: "'tx effect \<Rightarrow> bool" where
  "is_ParseLogs (ParseLogs programId ls) = True"
| "is_ParseLogs (ProviderSimulate tx sgs c) = False"

definition parser_invoked :: "'tx effect list \<Rightarrow> bool" where
  "parser_invoked trace = list_ex is_ParseLogs trace"

text \<open>An IDL declares no events when the field is absent or holds the empty array.\<close>

definition declares_no_events :: "Idl \<Rightarrow> bool" where
  "declares_no_events idl = (case idl_events idl of None \<Rightarrow> True | Some declared \<Rightarrow> declared = [])"

section \<open>A sample program\<close>

text \<open>
  A counter program with one instruction and events whose payload is a single digit,
  used to run the definitions on concrete invocations.
\<close>

definition counter_ix :: IdlInstruction where
  "counter_ix = \<lparr>ix_name = ''increment'', ix_args = [''amount'']\<rparr>"

definition counter_ctx :: Context where
  "counter_ctx =
    \<lparr>signers = Some [''payer''], options = Some \<lparr>commitment = Some ''confirmed''\<rparr>\<rparr>"

text \<open>
  Modelled from the spec: the error condition of the argument resolver \<^verbatim>\<open>splitArgsAndCtx\<close>
  of \<^verbatim>\<open>context.js\<close>, which is not among the sources. The spec has it raise
  \<open>MalformedArguments\<close> when the caller supplies fewer arguments than the schema
  requires. The sample resolver otherwise returns the positional arguments and the
  sample context.
\<close>

definition counter_split ::
  "IdlInstruction \<Rightarrow> string list \<Rightarrow> error + (string list \<times> Context)" where
  "counter_split idlIx args =
    (if length args < length (ix_args idlIx) then Inl MalformedArguments
     else Inr (take (length (ix_args idlIx)) args, counter_ctx))"

text \<open>The sample transaction builder does not fail, as the spec assumes of the builder.\<close>

definition counter_txFn :: "string list \<Rightarrow> error + string" where
  "counter_txFn args = Inr (concat (''increment'' # args))"

definition counter_marker :: "PublicKey \<Rightarrow> string" where
  "counter_marker programId = ''Program data: ''"

definition counter_coder :: "nat Coder" where
  "counter_coder =
    \<lparr>events_decode = (\<lambda>payload.
        if payload = ''1'' then Some \<lparr>name = ''Incremented'', data = [(''count'', 1)]\<rparr>
        else if payload = ''2'' then Some \<lparr>name = ''Incremented'', data = [(''count'', 2)]\<rparr>
        else if payload = ''3'' then Some \<lparr>name = ''Incremented'', data = [(''count'', 3)]\<rparr>
        else None)\<rparr>"

definition empty_coder :: "nat Coder" where
  "empty_coder = \<lparr>events_decode = (\<lambda>payload. None)\<rparr>"

definition counter_idl :: Idl where
  "counter_idl = \<lparr>idl_events = Some [\<lparr>event_name = ''Incremented''\<rparr>]\<rparr>"

definition counter_errors :: "int \<rightharpoonup> string" where
  "counter_errors = [6000 \<mapsto> ''Counter overflow'']"

text \<open>A provider whose simulation answers every call with the given outcome.\<close>

definition provider_answering ::
  "RawError + SuccessfulTxSimulationResponse option \<Rightarrow> string Provider" where
  "provider_answering outcome = \<lparr>simulate = Some (\<lambda>tx sgs c. outcome)\<rparr>"

definition provider_without_simulate :: "string Provider" where
  "provider_without_simulate = \<lparr>simulate = None\<rparr>"

text \<open>
  One invocation of \<^verbatim>\<open>program.simulate.increment("5", ctx)\<close> of the sample program, with
  the spec's translator and parser as collaborators.
\<close>

definition counter_simulate ::
  "string Provider \<Rightarrow> nat Coder \<Rightarrow> Idl \<Rightarrow> (error + nat SimulateResponse) \<times> string effect list" where
  "counter_simulate provider coder idl =
    build counter_split translateError (parseLogs counter_marker) counter_ix counter_txFn
      counter_errors provider coder ''Counter1'' idl [''5'']"

text \<open>The one call the sample invocation makes to its provider.\<close>

definition counter_call :: "string effect" where
  "counter_call = ProviderSimulate ''increment5'' (Some [''payer'']) (Some ''confirmed'')"

text \<open>Two failures a provider may reject with: one with a code of the table, one without.\<close>

definition overflow_failure :: RawError where
  "overflow_failure = \<lparr>err_code = Some 6000, err_message = ''custom program error: 0x1770''\<rparr>"

definition blockhash_failure :: RawError where
  "blockhash_failure = \<lparr>err_code = None, err_message = ''Blockhash not found''\<rparr>"

section \<open>Auxiliary facts\<close>

lemma push_all_append: "push_all acc es = acc @ es"
  by (induction es arbitrary: acc) simp_all

lemma parseLogs_append:
  "parseLogs marker programId coder (xs @ ys) =
     parseLogs marker programId coder xs @ parseLogs marker programId coder ys"
  by (induction xs) (simp_all split: option.split)

lemma parseLogs_map_filter:
  "parseLogs marker programId coder ls = List.map_filter (decodeLine (marker programId) coder) ls"
  by (induction ls) (simp_all split: option.split)

lemma parseLogs_skips_line:
  assumes "decodeLine (marker programId) coder bad = None"
  shows "parseLogs marker programId coder (xs @ bad # ys) =
           parseLogs marker programId coder xs @ parseLogs marker programId coder ys"
  using assms by (simp add: parseLogs_append)

lemma subseq_three: "subseq [a, b, c] (p @ [a] @ q @ [b] @ r @ [c] @ s)"
proof -
  have "subseq [c] ([c] @ s)"
    by simp
  then have "subseq [c] (r @ [c] @ s)"
    by (rule list_emb_append2)
  then have "subseq [b, c] ([b] @ r @ [c] @ s)"
    by simp
  then have "subseq [b, c] (q @ [b] @ r @ [c] @ s)"
    by (rule list_emb_append2)
  then have "subseq [a, b, c] ([a] @ q @ [b] @ r @ [c] @ s)"
    by simp
  then show ?thesis
    by (rule list_emb_append2)
qed

lemma sample_call_arguments:
  "counter_txFn [''5''] = Inr ''increment5''"
  "counter_split counter_ix [''5''] = Inr ([''5''], counter_ctx)"
  "signers counter_ctx = Some [''payer'']"
  "commitment_of counter_ctx = Some ''confirmed''"
  by (simp_all add: counter_txFn_def counter_split_def counter_ix_def counter_ctx_def
      commitment_of_def)

lemma simulate_provider_answering:
  "simulate (provider_answering outcome) = Some (\<lambda>tx sgs c. outcome)"
  by (simp add: provider_answering_def)

section \<open>The capability check\<close>

text \<open>
  C5 (as amended). When the provider has no \<^verbatim>\<open>simulate\<close> method, the invocation fails
  and no call is made, neither to the provider nor to the parser. It fails with the
  error of the capability check (the spec's \<open>UnsupportedOperation\<close>) when building the
  transaction and resolving the arguments complete, and with the error raised there
  otherwise: both run before the check.
\<close>

theorem missing_capability_fails_without_call:
  fixes split :: "IdlInstruction \<Rightarrow> 'a list \<Rightarrow> error + ('a list \<times> Context)"
    and parse :: "PublicKey \<Rightarrow> 'v Coder \<Rightarrow> string list \<Rightarrow> 'v Event list"
    and provider :: "'tx Provider"
  assumes "simulate provider = None"
  shows "fst (build split translate parse idlIx txFn idlErrors provider coder programId idl args)
           = Inl (case txFn args of
                    Inl thrown \<Rightarrow> thrown
                  | Inr tx \<Rightarrow>
                      (case split idlIx args of
                         Inl thrown \<Rightarrow> thrown
                       | Inr resolved \<Rightarrow>
                           Error
                             ''This function requires 'Provider.simulate' to be implemented.''))
         \<and> snd (build split translate parse idlIx txFn idlErrors provider coder programId idl args)
           = []"
  using assms by (simp add: build_def split: sum.split prod.split)

theorem missing_capability_fails_without_call_witness:
  "simulate provider_without_simulate = None
   \<and> counter_txFn [''5''] = Inr ''increment5''
   \<and> counter_split counter_ix [''5''] = Inr ([''5''], counter_ctx)
   \<and> fst (counter_simulate provider_without_simulate counter_coder counter_idl)
       = Inl (Error ''This function requires 'Provider.simulate' to be implemented.'')
   \<and> snd (counter_simulate provider_without_simulate counter_coder counter_idl) = []"
proof -
  have h: "simulate provider_without_simulate = None"
    by (simp add: provider_without_simulate_def)
  show ?thesis
    unfolding counter_simulate_def
    using h missing_capability_fails_without_call [where split = counter_split
        and translate = translateError and parse = "parseLogs counter_marker"
        and idlIx = counter_ix and txFn = counter_txFn and idlErrors = counter_errors
        and coder = counter_coder and programId = "''Counter1''" and idl = counter_idl
        and args = "[''5'']", OF h]
    by (simp add: sample_call_arguments)
qed

text \<open>
  The sample method takes one argument. Invoked with none against a provider without
  \<^verbatim>\<open>simulate\<close>, the resolver raises its error on line 28, before the capability check
  of line 30 is reached: the invocation fails, but not with the error of the check.
\<close>

theorem missing_capability_malformed_arguments_counterexample:
  "simulate provider_without_simulate = None
   \<and> fst (build counter_split translateError (parseLogs counter_marker) counter_ix counter_txFn
            counter_errors provider_without_simulate counter_coder ''Counter1'' counter_idl [])
       = Inl MalformedArguments
   \<and> fst (build counter_split translateError (parseLogs counter_marker) counter_ix counter_txFn
            counter_errors provider_without_simulate counter_coder ''Counter1'' counter_idl [])
       \<noteq> Inl (Error ''This function requires 'Provider.simulate' to be implemented.'')"
  by (simp add: build_def provider_without_simulate_def counter_txFn_def counter_split_def
      counter_ix_def)

section \<open>Failures after the provider was called\<close>

text \<open>
  C7 (as amended). When the provider's call resolves to \<^verbatim>\<open>undefined\<close>, the invocation
  fails with the error whose message is \<^verbatim>\<open>Unable to simulate transaction\<close> (the spec's
  \<open>SimulationUnavailable\<close>), after that one call to the provider.
\<close>

theorem no_result_fails_unable_to_simulate:
  fixes split :: "IdlInstruction \<Rightarrow> 'a list \<Rightarrow> error + ('a list \<times> Context)"
    and parse :: "PublicKey \<Rightarrow> 'v Coder \<Rightarrow> string list \<Rightarrow> 'v Event list"
    and provider :: "'tx Provider"
  assumes "txFn args = Inr tx"
    and "split idlIx args = Inr (positional, ctx)"
    and "simulate provider = Some sim"
    and "sim tx (signers ctx) (commitment_of ctx) = Inr None"
  shows "fst (build split translate parse idlIx txFn idlErrors provider coder programId idl args)
           = Inl (Error ''Unable to simulate transaction'')
         \<and> snd (build split translate parse idlIx txFn idlErrors provider coder programId idl args)
           = [ProviderSimulate tx (signers ctx) (commitment_of ctx)]"
  using assms by (simp add: build_def Let_def)

theorem no_result_fails_unable_to_simulate_witness:
  "simulate (provider_answering (Inr None)) = Some (\<lambda>tx sgs c. Inr None)
   \<and> fst (counter_simulate (provider_answering (Inr None)) counter_coder counter_idl)
       = Inl (Error ''Unable to simulate transaction'')
   \<and> snd (counter_simulate (provider_answering (Inr None)) counter_coder counter_idl)
       = [counter_call]"
proof -
  have h: "simulate (provider_answering (Inr None)) = Some (\<lambda>tx sgs c. Inr None)"
    by (rule simulate_provider_answering)
  show ?thesis
    unfolding counter_simulate_def counter_call_def
    using h no_result_fails_unable_to_simulate [where split = counter_split
        and translate = translateError and parse = "parseLogs counter_marker"
        and idlIx = counter_ix and txFn = counter_txFn and idlErrors = counter_errors
        and coder = counter_coder and programId = "''Counter1''" and idl = counter_idl
        and args = "[''5'']", OF sample_call_arguments(1) sample_call_arguments(2) h]
    by (simp add: sample_call_arguments)
qed

text \<open>
  The message of that error is not the lower-case \<^verbatim>\<open>unable to simulate transaction\<close>:
  the sample invocation against a provider that resolves to \<^verbatim>\<open>undefined\<close>.
\<close>

theorem no_result_message_counterexample:
  "fst (counter_simulate (provider_answering (Inr None)) counter_coder counter_idl)
     = Inl (Error ''Unable to simulate transaction'')
   \<and> fst (counter_simulate (provider_answering (Inr None)) counter_coder counter_idl)
     \<noteq> Inl (Error ''unable to simulate transaction'')"
  by (simp add: counter_simulate_def build_def Let_def simulate_provider_answering
      sample_call_arguments)

text \<open>
  C8. When the provider's call resolves to a response without a log sequence
  (\<^verbatim>\<open>resp.logs\<close> is \<^verbatim>\<open>null\<close> or \<^verbatim>\<open>undefined\<close>), the invocation fails with the error
  \<^verbatim>\<open>Simulated logs not found\<close> (the spec's \<open>LogsNotFound\<close>): the failure is a value of
  the function, it is not a success, and the parser is never reached.
\<close>

theorem missing_logs_fails_logs_not_found:
  fixes split :: "IdlInstruction \<Rightarrow> 'a list \<Rightarrow> error + ('a list \<times> Context)"
    and parse :: "PublicKey \<Rightarrow> 'v Coder \<Rightarrow> string list \<Rightarrow> 'v Event list"
    and provider :: "'tx Provider"
  assumes "txFn args = Inr tx"
    and "split idlIx args = Inr (positional, ctx)"
    and "simulate provider = Some sim"
    and "sim tx (signers ctx) (commitment_of ctx) = Inr (Some resp)"
    and "logs resp = None"
  shows "fst (build split translate parse idlIx txFn idlErrors provider coder programId idl args)
           = Inl (Error ''Simulated logs not found'')
         \<and> \<not> parser_invoked
             (snd (build split translate parse idlIx txFn idlErrors provider coder programId idl
                args))"
  using assms by (simp add: build_def Let_def parser_invoked_def)

theorem missing_logs_fails_logs_not_found_witness:
  "simulate (provider_answering (Inr (Some \<lparr>logs = None\<rparr>)))
     = Some (\<lambda>tx sgs c. Inr (Some \<lparr>logs = None\<rparr>))
   \<and> logs \<lparr>logs = None\<rparr> = None
   \<and> fst (counter_simulate (provider_answering (Inr (Some \<lparr>logs = None\<rparr>))) counter_coder
          counter_idl)
       = Inl (Error ''Simulated logs not found'')
   \<and> \<not> parser_invoked
        (snd (counter_simulate (provider_answering (Inr (Some \<lparr>logs = None\<rparr>))) counter_coder
           counter_idl))"
proof -
  have h: "simulate (provider_answering (Inr (Some \<lparr>logs = None\<rparr>)))
             = Some (\<lambda>tx sgs c. Inr (Some \<lparr>logs = None\<rparr>))"
    by (rule simulate_provider_answering)
  have l: "logs \<lparr>logs = None\<rparr> = None"
    by simp
  show ?thesis
    unfolding counter_simulate_def
    using h l missing_logs_fails_logs_not_found [where split = counter_split
        and translate = translateError and parse = "parseLogs counter_marker"
        and idlIx = counter_ix and txFn = counter_txFn and idlErrors = counter_errors
        and coder = counter_coder and programId = "''Counter1''" and idl = counter_idl
        and args = "[''5'']", OF sample_call_arguments(1) sample_call_arguments(2) h _ l]
    by simp
qed

section \<open>Successful invocations\<close>

text \<open>
  C3. When the provider's call resolves to a response with a log sequence, the invocation
  succeeds and the \<open>raw\<close> field of its result is that log sequence itself: the same
  lines in the same order.
\<close>

theorem raw_is_provider_logs:
  fixes split :: "IdlInstruction \<Rightarrow> 'a list \<Rightarrow> error + ('a list \<times> Context)"
    and parse :: "PublicKey \<Rightarrow> 'v Coder \<Rightarrow> string list \<Rightarrow> 'v Event list"
    and provider :: "'tx Provider"
  assumes "txFn args = Inr tx"
    and "split idlIx args = Inr (positional, ctx)"
    and "simulate provider = Some sim"
    and "sim tx (signers ctx) (commitment_of ctx) = Inr (Some resp)"
    and "logs resp = Some ls"
  shows "\<exists>decoded.
           fst (build split translate parse idlIx txFn idlErrors provider coder programId idl args)
             = Inr \<lparr>events = decoded, raw = ls\<rparr>"
  using assms by (simp add: build_def Let_def split: option.split)

theorem raw_is_provider_logs_witness:
  "simulate (provider_answering
       (Inr (Some \<lparr>logs = Some [''Program log: hello'', ''Program data: 2'']\<rparr>)))
     = Some (\<lambda>tx sgs c. Inr (Some \<lparr>logs = Some [''Program log: hello'', ''Program data: 2'']\<rparr>))
   \<and> logs \<lparr>logs = Some [''Program log: hello'', ''Program data: 2'']\<rparr>
       = Some [''Program log: hello'', ''Program data: 2'']
   \<and> (\<exists>decoded.
         fst (counter_simulate
                (provider_answering
                   (Inr (Some \<lparr>logs = Some [''Program log: hello'', ''Program data: 2'']\<rparr>)))
                counter_coder counter_idl)
           = Inr \<lparr>events = decoded, raw = [''Program log: hello'', ''Program data: 2'']\<rparr>)"
proof -
  have h: "simulate (provider_answering
               (Inr (Some \<lparr>logs = Some [''Program log: hello'', ''Program data: 2'']\<rparr>)))
             = Some (\<lambda>tx sgs c.
                 Inr (Some \<lparr>logs = Some [''Program log: hello'', ''Program data: 2'']\<rparr>))"
    by (rule simulate_provider_answering)
  have l: "logs \<lparr>logs = Some [''Program log: hello'', ''Program data: 2'']\<rparr>
             = Some [''Program log: hello'', ''Program data: 2'']"
    by simp
  show ?thesis
    unfolding counter_simulate_def
    using h l raw_is_provider_logs [where split = counter_split
        and translate = translateError and parse = "parseLogs counter_marker"
        and idlIx = counter_ix and txFn = counter_txFn and idlErrors = counter_errors
        and coder = counter_coder and programId = "''Counter1''" and idl = counter_idl
        and args = "[''5'']", OF sample_call_arguments(1) sample_call_arguments(2) h _ l]
    by simp
qed

text \<open>
  C10. Modelled on the spec's parser. The check of the logs tells an absent log sequence
  from an empty one. When the provider's call resolves to a response, the invocation
  fails with the error \<^verbatim>\<open>Simulated logs not found\<close> exactly when the response has no
  log sequence; when the log sequence is present and has no line, \<^verbatim>\<open>!logs\<close> is false
  and the invocation succeeds with an empty \<open>raw\<close> and no event.
\<close>

theorem logs_check_tells_absent_from_empty:
  fixes split :: "IdlInstruction \<Rightarrow> 'a list \<Rightarrow> error + ('a list \<times> Context)"
    and coder :: "'v Coder"
    and provider :: "'tx Provider"
  assumes "txFn args = Inr tx"
    and "split idlIx args = Inr (positional, ctx)"
    and "simulate provider = Some sim"
    and "sim tx (signers ctx) (commitment_of ctx) = Inr (Some resp)"
  shows "(logs resp = Some [] \<longrightarrow>
            fst (build split translate (parseLogs marker) idlIx txFn idlErrors provider coder
                   programId idl args)
              = Inr \<lparr>events = [], raw = []\<rparr>)
         \<and> (fst (build split translate (parseLogs marker) idlIx txFn idlErrors provider coder
                    programId idl args)
               = Inl (Error ''Simulated logs not found'')
             \<longleftrightarrow> logs resp = None)"
proof (cases "logs resp")
  case None
  with assms show ?thesis
    by (simp add: build_def Let_def)
next
  case (Some ls)
  with assms show ?thesis
    by (simp add: build_def Let_def push_all_append split: option.split)
qed

theorem logs_check_tells_absent_from_empty_witness:
  "simulate (provider_answering (Inr (Some \<lparr>logs = Some []\<rparr>)))
     = Some (\<lambda>tx sgs c. Inr (Some \<lparr>logs = Some []\<rparr>))
   \<and> logs \<lparr>logs = Some []\<rparr> = Some []
   \<and> fst (counter_simulate (provider_answering (Inr (Some \<lparr>logs = Some []\<rparr>))) counter_coder
          counter_idl)
       = Inr \<lparr>events = [], raw = []\<rparr>
   \<and> fst (counter_simulate (provider_answering (Inr (Some \<lparr>logs = Some []\<rparr>))) counter_coder
          counter_idl)
       \<noteq> Inl (Error ''Simulated logs not found'')
   \<and> simulate (provider_answering (Inr (Some \<lparr>logs = None\<rparr>)))
       = Some (\<lambda>tx sgs c. Inr (Some \<lparr>logs = None\<rparr>))
   \<and> logs \<lparr>logs = None\<rparr> = None
   \<and> fst (counter_simulate (provider_answering (Inr (Some \<lparr>logs = None\<rparr>))) counter_coder
          counter_idl)
       = Inl (Error ''Simulated logs not found'')"
proof -
  have h1: "simulate (provider_answering (Inr (Some \<lparr>logs = Some []\<rparr>)))
              = Some (\<lambda>tx sgs c. Inr (Some \<lparr>logs = Some []\<rparr>))"
    by (rule simulate_provider_answering)
  have h2: "simulate (provider_answering (Inr (Some \<lparr>logs = None\<rparr>)))
              = Some (\<lambda>tx sgs c. Inr (Some \<lparr>logs = None\<rparr>))"
    by (rule simulate_provider_answering)
  have a1: "(\<lambda>tx sgs c. Inr (Some \<lparr>logs = Some []\<rparr>)) ''increment5'' (signers counter_ctx)
              (commitment_of counter_ctx) = Inr (Some \<lparr>logs = Some []\<rparr>)"
    by simp
  have a2: "(\<lambda>tx sgs c. Inr (Some \<lparr>logs = None\<rparr>)) ''increment5'' (signers counter_ctx)
              (commitment_of counter_ctx) = Inr (Some \<lparr>logs = None\<rparr>)"
    by simp
  note present = logs_check_tells_absent_from_empty [where split = counter_split
      and translate = translateError and marker = counter_marker
      and idlIx = counter_ix and txFn = counter_txFn and idlErrors = counter_errors
      and coder = counter_coder and programId = "''Counter1''" and idl = counter_idl
      and args = "[''5'']" and provider = "provider_answering (Inr (Some \<lparr>logs = Some []\<rparr>))",
      OF sample_call_arguments(1) sample_call_arguments(2) h1 a1]
  note absent = logs_check_tells_absent_from_empty [where split = counter_split
      and translate = translateError and marker = counter_marker
      and idlIx = counter_ix and txFn = counter_txFn and idlErrors = counter_errors
      and coder = counter_coder and programId = "''Counter1''" and idl = counter_idl
      and args = "[''5'']" and provider = "provider_answering (Inr (Some \<lparr>logs = None\<rparr>))",
      OF sample_call_arguments(1) sample_call_arguments(2) h2 a2]
  show ?thesis
    unfolding counter_simulate_def
    using h1 h2 present absent by simp
qed

section \<open>When the decoded events are empty\<close>

text \<open>
  C1 (as amended). On a successful invocation the decoded events are empty exactly when the
  IDL has no \<^verbatim>\<open>events\<close> field or the parser yields no event from the returned logs. So
  an IDL without the field gives no events whatever the logs hold, and an IDL that
  declares events gives no events when the logs hold no emission the parser decodes.
\<close>

theorem events_empty_iff_nothing_decoded:
  fixes split :: "IdlInstruction \<Rightarrow> 'a list \<Rightarrow> error + ('a list \<times> Context)"
    and parse :: "PublicKey \<Rightarrow> 'v Coder \<Rightarrow> string list \<Rightarrow> 'v Event list"
    and provider :: "'tx Provider"
  assumes "fst (build split translate parse idlIx txFn idlErrors provider coder programId idl args)
             = Inr r"
  shows "events r = [] \<longleftrightarrow> idl_events idl = None \<or> parse programId coder (raw r) = []"
  using assms
  by (auto simp: build_def Let_def push_all_append split: option.splits sum.splits prod.splits)

theorem events_empty_iff_nothing_decoded_witness:
  "fst (counter_simulate
          (provider_answering
             (Inr (Some \<lparr>logs = Some [''Program log: hello'', ''Program data: 2'']\<rparr>)))
          counter_coder counter_idl)
     = Inr \<lparr>events = [\<lparr>name = ''Incremented'', data = [(''count'', 2)]\<rparr>],
            raw = [''Program log: hello'', ''Program data: 2'']\<rparr>
   \<and> (events \<lparr>events = [\<lparr>name = ''Incremented'', data = [(''count'', 2::nat)]\<rparr>],
               raw = [''Program log: hello'', ''Program data: 2'']\<rparr> = []
        \<longleftrightarrow> idl_events counter_idl = None
            \<or> parseLogs counter_marker ''Counter1'' counter_coder
                 (raw \<lparr>events = [\<lparr>name = ''Incremented'', data = [(''count'', 2::nat)]\<rparr>],
                       raw = [''Program log: hello'', ''Program data: 2'']\<rparr>) = [])"
proof -
  have h: "fst (build counter_split translateError (parseLogs counter_marker) counter_ix
                  counter_txFn counter_errors
                  (provider_answering
                     (Inr (Some \<lparr>logs = Some [''Program log: hello'', ''Program data: 2'']\<rparr>)))
                  counter_coder ''Counter1'' counter_idl [''5''])
             = Inr \<lparr>events = [\<lparr>name = ''Incremented'', data = [(''count'', 2)]\<rparr>],
                    raw = [''Program log: hello'', ''Program data: 2'']\<rparr>"
    by (simp add: build_def Let_def simulate_provider_answering counter_idl_def push_all_append
        decodeLine_def counter_marker_def counter_coder_def sample_call_arguments)
  show ?thesis
    unfolding counter_simulate_def
    using h events_empty_iff_nothing_decoded [OF h]
    by simp
qed

text \<open>
  The sample IDL declares one event, the logs hold one line that is no emission, and the
  invocation succeeds with no event: empty events do not tell that the IDL declares none.
\<close>

theorem events_empty_with_declared_event_counterexample:
  "\<not> declares_no_events counter_idl
   \<and> fst (counter_simulate
            (provider_answering
               (Inr (Some \<lparr>logs = Some [''Program log: Instruction: Increment'']\<rparr>)))
            counter_coder counter_idl)
       = Inr \<lparr>events = [], raw = [''Program log: Instruction: Increment'']\<rparr>"
  by (simp add: declares_no_events_def counter_idl_def counter_simulate_def build_def Let_def
      simulate_provider_answering decodeLine_def counter_marker_def sample_call_arguments)

text \<open>
  C2 (as amended). When the IDL has no \<^verbatim>\<open>events\<close> field, every successful invocation
  returns no event, whatever the logs hold, and the parser is not invoked.
\<close>

theorem absent_events_field_skips_parser:
  fixes split :: "IdlInstruction \<Rightarrow> 'a list \<Rightarrow> error + ('a list \<times> Context)"
    and parse :: "PublicKey \<Rightarrow> 'v Coder \<Rightarrow> string list \<Rightarrow> 'v Event list"
    and provider :: "'tx Provider"
  assumes "idl_events idl = None"
    and "fst (build split translate parse idlIx txFn idlErrors provider coder programId idl args)
           = Inr r"
  shows "events r = []
         \<and> \<not> parser_invoked
             (snd (build split translate parse idlIx txFn idlErrors provider coder programId idl
                args))"
  using assms
  by (auto simp: build_def Let_def parser_invoked_def split: option.splits sum.splits
      prod.splits)

theorem absent_events_field_skips_parser_witness:
  "idl_events \<lparr>idl_events = None\<rparr> = None
   \<and> fst (counter_simulate (provider_answering (Inr (Some \<lparr>logs = Some [''Program data: 1'']\<rparr>)))
          counter_coder \<lparr>idl_events = None\<rparr>)
       = Inr \<lparr>events = [], raw = [''Program data: 1'']\<rparr>
   \<and> events \<lparr>events = ([] :: nat Event list), raw = [''Program data: 1'']\<rparr> = []
   \<and> \<not> parser_invoked
        (snd (counter_simulate
                (provider_answering (Inr (Some \<lparr>logs = Some [''Program data: 1'']\<rparr>)))
                counter_coder \<lparr>idl_events = None\<rparr>))"
proof -
  have i: "idl_events \<lparr>idl_events = None\<rparr> = None"
    by simp
  have h: "fst (build counter_split translateError (parseLogs counter_marker) counter_ix
                  counter_txFn counter_errors
                  (provider_answering (Inr (Some \<lparr>logs = Some [''Program data: 1'']\<rparr>)))
                  counter_coder ''Counter1'' \<lparr>idl_events = None\<rparr> [''5''])
             = Inr \<lparr>events = [], raw = [''Program data: 1'']\<rparr>"
    by (simp add: build_def Let_def simulate_provider_answering sample_call_arguments)
  show ?thesis
    unfolding counter_simulate_def
    using i h absent_events_field_skips_parser [OF i h]
    by simp
qed

text \<open>
  An IDL whose \<^verbatim>\<open>events\<close> field is the empty array declares no event, and still the
  logs are handed to the parser: \<^verbatim>\<open>if (idl.events)\<close> is true for an empty array.
\<close>

theorem empty_events_array_parser_invoked_counterexample:
  "declares_no_events \<lparr>idl_events = Some []\<rparr>
   \<and> fst (counter_simulate (provider_answering (Inr (Some \<lparr>logs = Some [''Program data: 1'']\<rparr>)))
          empty_coder \<lparr>idl_events = Some []\<rparr>)
       = Inr \<lparr>events = [], raw = [''Program data: 1'']\<rparr>
   \<and> snd (counter_simulate (provider_answering (Inr (Some \<lparr>logs = Some [''Program data: 1'']\<rparr>)))
          empty_coder \<lparr>idl_events = Some []\<rparr>)
       = [counter_call, ParseLogs ''Counter1'' [''Program data: 1'']]
   \<and> parser_invoked
       (snd (counter_simulate
               (provider_answering (Inr (Some \<lparr>logs = Some [''Program data: 1'']\<rparr>)))
               empty_coder \<lparr>idl_events = Some []\<rparr>))"
  by (simp add: declares_no_events_def counter_simulate_def build_def Let_def
      simulate_provider_answering parser_invoked_def counter_call_def sample_call_arguments
      decodeLine_def empty_coder_def)

section \<open>Failures of the provider's call\<close>

text \<open>
  C6. Modelled on the spec's translator. When the provider's call rejects, the invocation
  fails with the translation of that error through the program's error table: a
  \<open>ProgramError\<close> with the table's message when the error's code is in the table, an
  \<open>UnknownError\<close> otherwise. Either way the failure carries the original error.
\<close>

theorem provider_failure_is_translated:
  fixes split :: "IdlInstruction \<Rightarrow> 'a list \<Rightarrow> error + ('a list \<times> Context)"
    and parse :: "PublicKey \<Rightarrow> 'v Coder \<Rightarrow> string list \<Rightarrow> 'v Event list"
    and provider :: "'tx Provider"
  assumes "txFn args = Inr tx"
    and "split idlIx args = Inr (positional, ctx)"
    and "simulate provider = Some sim"
    and "sim tx (signers ctx) (commitment_of ctx) = Inl err"
  shows "(\<forall>c msg. err_code err = Some c \<and> idlErrors c = Some msg \<longrightarrow>
            fst (build split translateError parse idlIx txFn idlErrors provider coder programId
                   idl args)
              = Inl (ProgramError c msg err))
         \<and> ((\<nexists>c msg. err_code err = Some c \<and> idlErrors c = Some msg) \<longrightarrow>
            fst (build split translateError parse idlIx txFn idlErrors provider coder programId
                   idl args)
              = Inl (UnknownError err))
         \<and> (\<exists>e. fst (build split translateError parse idlIx txFn idlErrors provider coder
                        programId idl args) = Inl e
                \<and> cause e = Some err)"
proof -
  have translated:
    "fst (build split translateError parse idlIx txFn idlErrors provider coder programId idl args)
       = Inl (translateError err idlErrors)"
    using assms by (simp add: build_def Let_def)
  have known: "translateError err idlErrors = ProgramError c msg err"
    if "err_code err = Some c \<and> idlErrors c = Some msg" for c msg
    using that by (simp add: translateError_def)
  have unknown: "translateError err idlErrors = UnknownError err"
    if "\<nexists>c msg. err_code err = Some c \<and> idlErrors c = Some msg"
    using that by (auto simp: translateError_def split: option.splits)
  have kept: "cause (translateError err idlErrors) = Some err"
    by (simp add: translateError_def split: option.splits)
  show ?thesis
    using translated known unknown kept by simp
qed

theorem provider_failure_is_translated_witness:
  "simulate (provider_answering (Inl overflow_failure)) = Some (\<lambda>tx sgs c. Inl overflow_failure)
   \<and> err_code overflow_failure = Some 6000
   \<and> counter_errors 6000 = Some ''Counter overflow''
   \<and> fst (counter_simulate (provider_answering (Inl overflow_failure)) counter_coder counter_idl)
       = Inl (ProgramError 6000 ''Counter overflow'' overflow_failure)
   \<and> simulate (provider_answering (Inl blockhash_failure))
       = Some (\<lambda>tx sgs c. Inl blockhash_failure)
   \<and> (\<nexists>c msg. err_code blockhash_failure = Some c \<and> counter_errors c = Some msg)
   \<and> fst (counter_simulate (provider_answering (Inl blockhash_failure)) counter_coder counter_idl)
       = Inl (UnknownError blockhash_failure)"
proof -
  have h1: "simulate (provider_answering (Inl overflow_failure))
              = Some (\<lambda>tx sgs c. Inl overflow_failure)"
    by (rule simulate_provider_answering)
  have h2: "simulate (provider_answering (Inl blockhash_failure))
              = Some (\<lambda>tx sgs c. Inl blockhash_failure)"
    by (rule simulate_provider_answering)
  have k: "err_code overflow_failure = Some 6000 \<and> counter_errors 6000 = Some ''Counter overflow''"
    by (simp add: overflow_failure_def counter_errors_def)
  have u: "\<nexists>c msg. err_code blockhash_failure = Some c \<and> counter_errors c = Some msg"
    by (simp add: blockhash_failure_def)
  have r1: "fst (build counter_split translateError (parseLogs counter_marker) counter_ix
                   counter_txFn counter_errors (provider_answering (Inl overflow_failure))
                   counter_coder ''Counter1'' counter_idl [''5''])
              = Inl (ProgramError 6000 ''Counter overflow'' overflow_failure)"
    using k provider_failure_is_translated [where split = counter_split
        and parse = "parseLogs counter_marker" and idlIx = counter_ix and txFn = counter_txFn
        and idlErrors = counter_errors and coder = counter_coder and programId = "''Counter1''"
        and idl = counter_idl and args = "[''5'']", OF sample_call_arguments(1) sample_call_arguments(2) h1]
    by blast
  have r2: "fst (build counter_split translateError (parseLogs counter_marker) counter_ix
                   counter_txFn counter_errors (provider_answering (Inl blockhash_failure))
                   counter_coder ''Counter1'' counter_idl [''5''])
              = Inl (UnknownError blockhash_failure)"
    using u provider_failure_is_translated [where split = counter_split
        and parse = "parseLogs counter_marker" and idlIx = counter_ix and txFn = counter_txFn
        and idlErrors = counter_errors and coder = counter_coder and programId = "''Counter1''"
        and idl = counter_idl and args = "[''5'']", OF sample_call_arguments(1) sample_call_arguments(2) h2]
    by blast
  show ?thesis
    unfolding counter_simulate_def
    using h1 h2 k u r1 r2 by simp
qed

section \<open>Decoding the logs\<close>

text \<open>
  C4. Modelled on the spec's parser. When the returned logs hold three recognized
  emissions, of the events \<open>E1\<close>, \<open>E2\<close> and \<open>E3\<close> in this order, with any lines before,
  between and after them, the invocation succeeds for an IDL that declares events, and
  its events hold \<open>E1\<close>, \<open>E2\<close> and \<open>E3\<close> in the order of their lines: around them are
  the events decoded from the lines before, between and after.
\<close>

theorem three_emissions_keep_order:
  fixes split :: "IdlInstruction \<Rightarrow> 'a list \<Rightarrow> error + ('a list \<times> Context)"
    and coder :: "'v Coder"
    and provider :: "'tx Provider"
  assumes "txFn args = Inr tx"
    and "split idlIx args = Inr (positional, ctx)"
    and "simulate provider = Some sim"
    and "sim tx (signers ctx) (commitment_of ctx) = Inr (Some resp)"
    and "logs resp = Some (before @ [l1] @ mid1 @ [l2] @ mid2 @ [l3] @ after)"
    and "idl_events idl = Some declared"
    and "decodeLine (marker programId) coder l1 = Some E1"
    and "decodeLine (marker programId) coder l2 = Some E2"
    and "decodeLine (marker programId) coder l3 = Some E3"
  shows "\<exists>r. fst (build split translate (parseLogs marker) idlIx txFn idlErrors provider coder
                    programId idl args) = Inr r
             \<and> events r = parseLogs marker programId coder before @ [E1]
                           @ parseLogs marker programId coder mid1 @ [E2]
                           @ parseLogs marker programId coder mid2 @ [E3]
                           @ parseLogs marker programId coder after
             \<and> subseq [E1, E2, E3] (events r)"
proof -
  let ?ls = "before @ [l1] @ mid1 @ [l2] @ mid2 @ [l3] @ after"
  let ?decoded = "parseLogs marker programId coder before @ [E1]
                  @ parseLogs marker programId coder mid1 @ [E2]
                  @ parseLogs marker programId coder mid2 @ [E3]
                  @ parseLogs marker programId coder after"
  have parsed: "parseLogs marker programId coder ?ls = ?decoded"
    using assms(7-9) by (simp add: parseLogs_append)
  have result:
    "fst (build split translate (parseLogs marker) idlIx txFn idlErrors provider coder programId
            idl args)
       = Inr \<lparr>events = ?decoded, raw = ?ls\<rparr>"
    using assms(1-6) parsed by (simp add: build_def Let_def push_all_append)
  have "subseq [E1, E2, E3] ?decoded"
    by (rule subseq_three)
  with result show ?thesis
    by simp
qed

theorem three_emissions_keep_order_witness:
  "simulate (provider_answering
       (Inr (Some \<lparr>logs = Some ([] @ [''Program data: 1''] @ [''Program log: hello'']
                                 @ [''Program data: 2''] @ [] @ [''Program data: 3''] @ [])\<rparr>)))
     = Some (\<lambda>tx sgs c.
         Inr (Some \<lparr>logs = Some ([] @ [''Program data: 1''] @ [''Program log: hello'']
                                  @ [''Program data: 2''] @ [] @ [''Program data: 3''] @ [])\<rparr>))
   \<and> idl_events counter_idl = Some [\<lparr>event_name = ''Incremented''\<rparr>]
   \<and> decodeLine (counter_marker ''Counter1'') counter_coder ''Program data: 1''
       = Some \<lparr>name = ''Incremented'', data = [(''count'', 1)]\<rparr>
   \<and> decodeLine (counter_marker ''Counter1'') counter_coder ''Program data: 2''
       = Some \<lparr>name = ''Incremented'', data = [(''count'', 2)]\<rparr>
   \<and> decodeLine (counter_marker ''Counter1'') counter_coder ''Program data: 3''
       = Some \<lparr>name = ''Incremented'', data = [(''count'', 3)]\<rparr>
   \<and> (\<exists>r. fst (counter_simulate
                  (provider_answering
                     (Inr (Some \<lparr>logs = Some [''Program data: 1'', ''Program log: hello'',
                                               ''Program data: 2'', ''Program data: 3'']\<rparr>)))
                  counter_coder counter_idl) = Inr r
          \<and> events r = [\<lparr>name = ''Incremented'', data = [(''count'', 1)]\<rparr>,
                         \<lparr>name = ''Incremented'', data = [(''count'', 2)]\<rparr>,
                         \<lparr>name = ''Incremented'', data = [(''count'', 3)]\<rparr>])"
proof -
  let ?resp = "\<lparr>logs = Some ([] @ [''Program data: 1''] @ [''Program log: hello'']
                              @ [''Program data: 2''] @ [] @ [''Program data: 3''] @ [])\<rparr>"
  have h: "simulate (provider_answering (Inr (Some ?resp))) = Some (\<lambda>tx sgs c. Inr (Some ?resp))"
    by (rule simulate_provider_answering)
  have a: "(\<lambda>tx sgs c. Inr (Some ?resp)) ''increment5'' (signers counter_ctx)
             (commitment_of counter_ctx) = Inr (Some ?resp)"
    by simp
  have l: "logs ?resp = Some ([] @ [''Program data: 1''] @ [''Program log: hello'']
                               @ [''Program data: 2''] @ [] @ [''Program data: 3''] @ [])"
    by simp
  have i: "idl_events counter_idl = Some [\<lparr>event_name = ''Incremented''\<rparr>]"
    by (simp add: counter_idl_def)
  have d1: "decodeLine (counter_marker ''Counter1'') counter_coder ''Program data: 1''
              = Some \<lparr>name = ''Incremented'', data = [(''count'', 1)]\<rparr>"
    by (simp add: decodeLine_def counter_marker_def counter_coder_def)
  have d2: "decodeLine (counter_marker ''Counter1'') counter_coder ''Program data: 2''
              = Some \<lparr>name = ''Incremented'', data = [(''count'', 2)]\<rparr>"
    by (simp add: decodeLine_def counter_marker_def counter_coder_def)
  have d3: "decodeLine (counter_marker ''Counter1'') counter_coder ''Program data: 3''
              = Some \<lparr>name = ''Incremented'', data = [(''count'', 3)]\<rparr>"
    by (simp add: decodeLine_def counter_marker_def counter_coder_def)
  have plain: "decodeLine (counter_marker ''Counter1'') counter_coder ''Program log: hello'' = None"
    by (simp add: decodeLine_def counter_marker_def)
  show ?thesis
    unfolding counter_simulate_def
    using h i d1 d2 d3
      three_emissions_keep_order [where split = counter_split and translate = translateError
        and marker = counter_marker and idlIx = counter_ix and txFn = counter_txFn
        and idlErrors = counter_errors and coder = counter_coder and programId = "''Counter1''"
        and idl = counter_idl and args = "[''5'']", OF sample_call_arguments(1) sample_call_arguments(2) h a l i d1 d2 d3]
    by (auto simp: plain)
qed

text \<open>
  C9. Modelled on the spec's parser. When the returned logs are a valid emission line, a
  line that does not parse and another valid emission line, the invocation succeeds
  for an IDL that declares events, with the two decoded events in the order of their
  lines and nothing for the line between them. The lemma \<open>parseLogs_skips_line\<close> is
  the same for a line that does not parse between any two runs of lines.
\<close>

theorem malformed_line_is_skipped:
  fixes split :: "IdlInstruction \<Rightarrow> 'a list \<Rightarrow> error + ('a list \<times> Context)"
    and coder :: "'v Coder"
    and provider :: "'tx Provider"
  assumes "txFn args = Inr tx"
    and "split idlIx args = Inr (positional, ctx)"
    and "simulate provider = Some sim"
    and "sim tx (signers ctx) (commitment_of ctx) = Inr (Some resp)"
    and "logs resp = Some [l1, bad, l2]"
    and "idl_events idl = Some declared"
    and "decodeLine (marker programId) coder l1 = Some E1"
    and "decodeLine (marker programId) coder bad = None"
    and "decodeLine (marker programId) coder l2 = Some E2"
  shows "fst (build split translate (parseLogs marker) idlIx txFn idlErrors provider coder
                programId idl args)
           = Inr \<lparr>events = [E1, E2], raw = [l1, bad, l2]\<rparr>"
  using assms by (simp add: build_def Let_def push_all_append)

theorem malformed_line_is_skipped_witness:
  "simulate (provider_answering
       (Inr (Some \<lparr>logs = Some [''Program data: 1'', ''Program data: garbage'',
                                 ''Program data: 3'']\<rparr>)))
     = Some (\<lambda>tx sgs c.
         Inr (Some \<lparr>logs = Some [''Program data: 1'', ''Program data: garbage'',
                                  ''Program data: 3'']\<rparr>))
   \<and> idl_events counter_idl = Some [\<lparr>event_name = ''Incremented''\<rparr>]
   \<and> decodeLine (counter_marker ''Counter1'') counter_coder ''Program data: 1''
       = Some \<lparr>name = ''Incremented'', data = [(''count'', 1)]\<rparr>
   \<and> decodeLine (counter_marker ''Counter1'') counter_coder ''Program data: garbage'' = None
   \<and> decodeLine (counter_marker ''Counter1'') counter_coder ''Program data: 3''
       = Some \<lparr>name = ''Incremented'', data = [(''count'', 3)]\<rparr>
   \<and> fst (counter_simulate
            (provider_answering
               (Inr (Some \<lparr>logs = Some [''Program data: 1'', ''Program data: garbage'',
                                         ''Program data: 3'']\<rparr>)))
            counter_coder counter_idl)
       = Inr \<lparr>events = [\<lparr>name = ''Incremented'', data = [(''count'', 1)]\<rparr>,
                        \<lparr>name = ''Incremented'', data = [(''count'', 3)]\<rparr>],
              raw = [''Program data: 1'', ''Program data: garbage'', ''Program data: 3'']\<rparr>"
proof -
  let ?resp = "\<lparr>logs = Some [''Program data: 1'', ''Program data: garbage'',
                              ''Program data: 3'']\<rparr>"
  have h: "simulate (provider_answering (Inr (Some ?resp))) = Some (\<lambda>tx sgs c. Inr (Some ?resp))"
    by (rule simulate_provider_answering)
  have a: "(\<lambda>tx sgs c. Inr (Some ?resp)) ''increment5'' (signers counter_ctx)
             (commitment_of counter_ctx) = Inr (Some ?resp)"
    by simp
  have l: "logs ?resp = Some [''Program data: 1'', ''Program data: garbage'', ''Program data: 3'']"
    by simp
  have i: "idl_events counter_idl = Some [\<lparr>event_name = ''Incremented''\<rparr>]"
    by (simp add: counter_idl_def)
  have d1: "decodeLine (counter_marker ''Counter1'') counter_coder ''Program data: 1''
              = Some \<lparr>name = ''Incremented'', data = [(''count'', 1)]\<rparr>"
    by (simp add: decodeLine_def counter_marker_def counter_coder_def)
  have d2: "decodeLine (counter_marker ''Counter1'') counter_coder ''Program data: garbage''
              = None"
    by (simp add: decodeLine_def counter_marker_def counter_coder_def)
  have d3: "decodeLine (counter_marker ''Counter1'') counter_coder ''Program data: 3''
              = Some \<lparr>name = ''Incremented'', data = [(''count'', 3)]\<rparr>"
    by (simp add: decodeLine_def counter_marker_def counter_coder_def)
  show ?thesis
    unfolding counter_simulate_def
    using h i d1 d2 d3
      malformed_line_is_skipped [where split = counter_split and translate = translateError
        and marker = counter_marker and idlIx = counter_ix and txFn = counter_txFn
        and idlErrors = counter_errors and coder = counter_coder and programId = "''Counter1''"
        and idl = counter_idl and args = "[''5'']", OF sample_call_arguments(1) sample_call_arguments(2) h a l i d1 d2 d3]
    by simp
qed

end
